theory Spec2Isabelle
  imports Main
begin

section \<open>Python values\<close>

text \<open>
  A Python \<open>str\<close> is a sequence of Unicode code points: slicing, \<open>strip\<close> and
  \<open>len\<close> count code points, so a string is a list of code-point numbers. \<open>u\<close>
  turns an ASCII literal into that representation.
\<close>

type_synonym pystr = "nat list"

definition u :: "string \<Rightarrow> pystr" where
  "u s = map of_char s"

text \<open>
  The values that travel through the program come from \<open>json.load\<close> and
  \<open>response.json()\<close>: \<open>None\<close>, booleans, numbers, strings, lists and dicts with
  string keys. A code point is at most 1114111. A dict is an association list with distinct
  keys, read with \<open>map_of\<close>. Numbers are integers;
  a float behaves like an integer in every operation used here (it is falsy exactly at zero,
  has no \<open>get\<close> and no \<open>append\<close>, and cannot be sliced).
\<close>

datatype json =
    JNull
  | JBool bool
  | JInt int
  | JStr pystr
  | JArr "json list"
  | JObj "(pystr \<times> json) list"

datatype error =
    OSError
  | ConnectionError
  | ValueError
  | AttributeError
  | TypeError
  | KeyError
  | UnicodeEncodeError

text \<open>Truth value of an object, as \<open>if x:\<close> and \<open>not x\<close> test it.\<close>

fun truthy :: "json \<Rightarrow> bool" where
  "truthy JNull = False"
| "truthy (JBool b) = b"
| "truthy (JInt n) = (n \<noteq> 0)"
| "truthy (JStr s) = (s \<noteq> [])"
| "truthy (JArr xs) = (xs \<noteq> [])"
| "truthy (JObj kvs) = (kvs \<noteq> [])"

text \<open>\<open>x.get(k, default)\<close>: only a dict has the method.\<close>

fun dict_get :: "json \<Rightarrow> pystr \<Rightarrow> json \<Rightarrow> error + json" where
  "dict_get (JObj kvs) k dflt = Inr (case map_of kvs k of Some v \<Rightarrow> v | None \<Rightarrow> dflt)"
| "dict_get _ k dflt = Inl AttributeError"

text \<open>\<open>x[k]\<close> with a string key: \<open>KeyError\<close> on a dict without the key, \<open>TypeError\<close>
  on anything that is not a dict.\<close>

fun subscript :: "json \<Rightarrow> pystr \<Rightarrow> error + json" where
  "subscript (JObj kvs) k = (case map_of kvs k of Some v \<Rightarrow> Inr v | None \<Rightarrow> Inl KeyError)"
| "subscript _ k = Inl TypeError"

text \<open>\<open>x[:n]\<close>: strings and lists are cut to their first \<open>n\<close> items, nothing else can be
  sliced (a dict raises \<open>TypeError\<close>, or \<open>KeyError\<close> from Python 3.12 on; the model
  does not tell these two apart).\<close>

fun slice_to :: "nat \<Rightarrow> json \<Rightarrow> error + json" where
  "slice_to n (JStr s) = Inr (JStr (take n s))"
| "slice_to n (JArr xs) = Inr (JArr (take n xs))"
| "slice_to n _ = Inl TypeError"

section \<open>The conversation log file\<close>

text \<open>
  \<open>HISTORY_FILE\<close> as the two functions below see it. \<open>present\<close> is the answer of
  \<open>os.path.exists\<close>; \<open>readable\<close> says whether \<open>open(HISTORY_FILE, "r")\<close> succeeds;
  \<open>body\<close> is what \<open>json.load\<close> makes of the file's text, \<open>None\<close> when it raises;
  \<open>on_write\<close> is what happens inside \<open>with open(HISTORY_FILE, "w")\<close>. The text itself
  is not modelled: that \<open>json.load\<close> reads back the value a completed \<open>json.dump\<close>
  wrote is taken from the library.
\<close>

datatype write_outcome =
    Written      \<comment> \<open>the file is opened and takes whatever text is written\<close>
  | OpenRaises   \<comment> \<open>\<open>open\<close> raises: the file is left as it was\<close>
  | DumpRaises   \<comment> \<open>the file is created or emptied, then writing fails (an I/O error)\<close>

record disk =
  present :: bool
  readable :: bool
  body :: "json option"
  on_write :: write_outcome

text \<open>The body of the \<open>try\<close> in \<open>load_history\<close>: open the file and parse it.\<close>

definition read_json :: "disk \<Rightarrow> error + json" where
  "read_json d =
     (if readable d
      then (case body d of None \<Rightarrow> Inl ValueError | Some v \<Rightarrow> Inr v)
      else Inl OSError)"

definition load_history :: "disk \<Rightarrow> json" where
  "load_history d =
     (if present d
      then (case read_json d of Inl e \<Rightarrow> JArr [] | Inr v \<Rightarrow> v)
      else JArr [])"

text \<open>
  \<open>save_history\<close> opens the file with \<open>encoding="utf-8"\<close> and dumps with
  \<open>ensure_ascii=False\<close>, so every string goes to the file as it is and must be
  encodable: a code point in the surrogate range (55296 to 57343, which \<open>response.json()\<close>
  and \<open>json.load\<close> make of a lone surrogate escape) cannot be written, and the write raises
  \<open>UnicodeEncodeError\<close> when it gets to it. \<open>encodable\<close> says that no string of a
  value, key or item, holds such a code point.
\<close>

definition utf8_ok :: "nat \<Rightarrow> bool" where
  "utf8_ok c \<longleftrightarrow> c < 55296 \<or> 57343 < c"

fun encodable :: "json \<Rightarrow> bool" where
  "encodable (JStr s) = list_all utf8_ok s"
| "encodable (JArr xs) = list_all encodable xs"
| "encodable (JObj kvs) = list_all (\<lambda>kv. list_all utf8_ok (fst kv) \<and> encodable (snd kv)) kvs"
| "encodable _ = True"

text \<open>
  The \<open>with\<close> block in \<open>save_history\<close>: the file it leaves behind and the exception
  it raised, if any. \<open>open(..., "w")\<close> empties the file before anything is written, so
  a write that breaks off, on a string that cannot be encoded or on an I/O error, leaves
  the beginning of the JSON text, which \<open>json.load\<close> rejects. \<open>save_history\<close> passes
  over the exception.
\<close>

definition write_json :: "disk \<Rightarrow> json \<Rightarrow> disk \<times> error option" where
  "write_json d history =
     (case on_write d of
        Written \<Rightarrow>
          if encodable history
          then (d\<lparr>present := True, body := Some history\<rparr>, None)
          else (d\<lparr>present := True, body := None\<rparr>, Some UnicodeEncodeError)
      | OpenRaises \<Rightarrow> (d, Some OSError)
      | DumpRaises \<Rightarrow> (d\<lparr>present := True, body := None\<rparr>, Some OSError))"

definition save_history :: "disk \<Rightarrow> json \<Rightarrow> disk" where
  "save_history d history = fst (write_json d history)"

section \<open>The chat bubble and its surroundings\<close>

text \<open>
  Texts put on screen. A fixed message is a literal; a message built by an f-string keeps
  the interpolated values, since these may be any JSON value (its \<open>str()\<close> is then
  Python's business):
  \<^item> \<open>Reply label answer\<close> is \<open>f"{mode_label} {answer}"\<close>,
  \<^item> \<open>ConfirmPrompt response_text code_preview\<close> is the text built in
    \<open>_show_code_confirm\<close>,
  \<^item> \<open>ExecDone output\<close> is the "[Agent] done:" text with the output below it,
  \<^item> \<open>ExecError e\<close> is the "execution error:" text followed by \<open>str(e)[:50]\<close>.
\<close>

datatype shown =
    Lit pystr
  | Reply pystr json
  | ConfirmPrompt pystr json
  | ExecDone json
  | ExecError error

text \<open>The fixed messages, as code points.\<close>

definition msg_unreachable :: pystr where
  \<comment> \<open>"cannot connect / please make sure the service is running" (line 539)\<close>
  "msg_unreachable =
     [26080, 27861, 36830, 25509, 10, 35831, 30830, 20445, 26381, 21153, 27491, 22312,
      36816, 34892]"

definition msg_no_answer :: pystr where
  \<comment> \<open>"hmm... I don't know what to say" (line 568)\<close>
  "msg_no_answer =
     [21999, 46, 46, 46, 25105, 19981, 30693, 36947, 35813, 35828, 20160, 20040]"

definition msg_not_heard :: pystr where
  \<comment> \<open>"didn't catch that, say it again?" (line 417)\<close>
  "msg_not_heard = [27809, 21548, 28165, 65292, 20877, 35828, 19968, 27425, 65311]"

definition msg_thinking :: pystr where
  \<comment> \<open>"thinking..." (line 426)\<close>
  "msg_thinking = [24605, 32771, 20013, 46, 46, 46]"

definition msg_cancelled :: pystr where
  \<comment> \<open>"[Agent] execution cancelled" (line 479)\<close>
  "msg_cancelled = u ''[Agent] '' @ [24050, 21462, 28040, 25191, 34892]"

definition msg_exec_failed :: pystr where
  \<comment> \<open>"execution failed" (line 467)\<close>
  "msg_exec_failed = [25191, 34892, 22833, 36133]"

definition msg_no_output :: pystr where
  \<comment> \<open>"no output", the default of \<open>result.get("output", ...)\<close> (line 464)\<close>
  "msg_no_output = [26080, 36755, 20986]"

definition msg_start :: pystr where
  \<comment> \<open>"click me to start chatting!" (line 207)\<close>
  "msg_start = [28857, 20987, 25105, 24320, 22987, 32842, 22825, 65281]"

definition msg_recording :: pystr where
  \<comment> \<open>microphone sign, then "recording..." (line 380)\<close>
  "msg_recording = [127908, 32, 27491, 22312, 24405, 38899, 46, 46, 46]"

definition msg_transcribing :: pystr where
  \<comment> \<open>"transcribing..." (line 360)\<close>
  "msg_transcribing = [27491, 22312, 36716, 24405, 46, 46, 46]"

definition say_confirm :: pystr where
  \<comment> \<open>"I'd like to run some code, please confirm" (line 560)\<close>
  "say_confirm =
     [25105, 24819, 25191, 34892, 19968, 20123, 20195, 30721, 65292, 35831, 30830, 35748]"

definition say_done :: pystr where
  \<comment> \<open>"execution finished" (line 473)\<close>
  "say_done = [25191, 34892, 23436, 25104]"

text \<open>
  The three Qt signals of \<open>ChatBubble\<close>. \<open>code_confirm_ready\<close> is declared
  \<open>pyqtSignal(str, dict)\<close>, so what it carries is a string and a dict.
\<close>

datatype signal =
    ResponseReady shown
  | VoiceTextReady pystr
  | CodeConfirmReady pystr "(pystr \<times> json) list"

text \<open>
  HTTP requests the program issues, with the values its payload is built from:
  \<open>ChatRequest context prompt\<close> to \<open>localhost:8000/chat\<close>,
  \<open>OllamaRequest context prompt\<close> to \<open>localhost:11434/api/chat\<close>,
  \<open>ExecuteRequest language code\<close> to \<open>localhost:8000/execute\<close>.
\<close>

datatype request =
    ChatRequest pystr pystr
  | OllamaRequest pystr pystr
  | ExecuteRequest json json

text \<open>
  What \<open>requests.post\<close> does: it raises (no connection, timeout), or it returns a
  response with a status code whose \<open>.json()\<close> is the given value, \<open>None\<close> when
  \<open>.json()\<close> raises.
\<close>

datatype http = Raises | Response nat "json option"

datatype btn_style = StyleIdle | StyleRecording | StyleTranscribing

text \<open>
  The state the operations act on: the attributes and widgets of \<open>ChatBubble\<close>
  (\<open>voice_module\<close> is whether \<open>self.voice_module\<close> is set), the history file, and
  logs of what has left the object so far, oldest first: HTTP requests issued, signals
  emitted, texts handed to \<open>speak_async\<close>, and the prompts of the \<open>_call_llm\<close> threads
  started. \<open>recorders\<close> counts the \<open>_record_voice\<close> threads started and
  \<open>stop_requested\<close> is the voice module's \<open>_stop_recording\<close> flag.
\<close>

record world =
  is_recording :: bool
  self_pending_code :: json
  response_label :: shown
  input_field :: pystr
  confirm_shown :: bool
  voice_btn :: btn_style
  voice_module :: bool
  history_file :: disk
  requests :: "request list"
  emitted :: "signal list"
  spoken :: "json list"
  workers :: "pystr list"
  recorders :: nat
  stop_requested :: bool

text \<open>The bubble as \<open>__init__\<close> leaves it, beside a given history file.\<close>

definition new_bubble :: "bool \<Rightarrow> disk \<Rightarrow> world" where
  "new_bubble has_voice d =
     \<lparr>is_recording = False, self_pending_code = JNull, response_label = Lit msg_start,
      input_field = [], confirm_shown = False, voice_btn = StyleIdle,
      voice_module = has_voice, history_file = d, requests = [], emitted = [],
      spoken = [], workers = [], recorders = 0, stop_requested = False\<rparr>"

definition post :: "request \<Rightarrow> world \<Rightarrow> world" where
  "post r w = w\<lparr>requests := requests w @ [r]\<rparr>"

definition emit :: "signal \<Rightarrow> world \<Rightarrow> world" where
  "emit s w = w\<lparr>emitted := emitted w @ [s]\<rparr>"

text \<open>\<open>if self.voice_module: self.voice_module.speak_async(x)\<close>\<close>

definition say :: "json \<Rightarrow> world \<Rightarrow> world" where
  "say x w = (if voice_module w then w\<lparr>spoken := spoken w @ [x]\<rparr> else w)"

subsection \<open>Text and voice input\<close>

text \<open>\<open>str.isspace\<close> on one code point, and \<open>str.strip()\<close>.\<close>

definition py_isspace :: "nat \<Rightarrow> bool" where
  "py_isspace c \<longleftrightarrow>
     (9 \<le> c \<and> c \<le> 13) \<or> (28 \<le> c \<and> c \<le> 32) \<or> c = 133 \<or> c = 160 \<or> c = 5760 \<or>
     (8192 \<le> c \<and> c \<le> 8202) \<or> c = 8232 \<or> c = 8233 \<or> c = 8239 \<or> c = 8287 \<or> c = 12288"

definition strip :: "pystr \<Rightarrow> pystr" where
  "strip s = rev (dropWhile py_isspace (rev (dropWhile py_isspace s)))"

definition toggle_voice_input :: "world \<Rightarrow> world" where
  "toggle_voice_input w =
     (if \<not> voice_module w then w
      else if is_recording w
      then w\<lparr>stop_requested := True, response_label := Lit msg_transcribing,
             voice_btn := StyleTranscribing\<rparr>
      else w\<lparr>is_recording := True, voice_btn := StyleRecording,
             response_label := Lit msg_recording, recorders := Suc (recorders w)\<rparr>)"

definition send_message :: "world \<Rightarrow> world" where
  "send_message w =
     (let txt = strip (input_field w) in
      if txt = [] then w
      else w\<lparr>input_field := [], response_label := Lit msg_thinking,
             workers := workers w @ [txt]\<rparr>)"

definition on_voice_text :: "pystr \<Rightarrow> world \<Rightarrow> world" where
  "on_voice_text txt w =
     (let w1 = w\<lparr>is_recording := False, voice_btn := StyleIdle\<rparr> in
      if txt \<noteq> [] then send_message (w1\<lparr>input_field := txt\<rparr>)
      else w1\<lparr>response_label := Lit msg_not_heard\<rparr>)"

text \<open>
  \<open>_record_voice\<close>: \<open>voice_input\<close> returns \<open>None\<close>, returns a string, or raises;
  the signal carries the string when it is non-empty and the empty string otherwise.
\<close>

datatype heard = HeardNone | Heard pystr | HearRaises

fun record_voice :: "heard \<Rightarrow> world \<Rightarrow> world" where
  "record_voice (Heard txt) w =
     (if txt \<noteq> [] then emit (VoiceTextReady txt) w else emit (VoiceTextReady []) w)"
| "record_voice HeardNone w = emit (VoiceTextReady []) w"
| "record_voice HearRaises w = emit (VoiceTextReady []) w"

subsection \<open>Confirmation of a pending action\<close>

definition update_response :: "shown \<Rightarrow> world \<Rightarrow> world" where
  "update_response t w = w\<lparr>response_label := t\<rparr>"

text \<open>
  \<open>_show_code_confirm\<close> runs as a slot: an exception leaves it with the assignments made
  so far, which is the world returned beside the error.
\<close>

definition show_code_confirm ::
  "pystr \<Rightarrow> (pystr \<times> json) list \<Rightarrow> world \<Rightarrow> world \<times> error option" where
  "show_code_confirm response_text pc w =
     (let w1 = w\<lparr>self_pending_code := JObj pc\<rparr> in
      case dict_get (JObj pc) (u ''code'') (JStr []) of
        Inl e \<Rightarrow> (w1, Some e)
      | Inr c \<Rightarrow>
          (case slice_to 100 c of
             Inl e \<Rightarrow> (w1, Some e)
           | Inr code_preview \<Rightarrow>
               (w1\<lparr>response_label := ConfirmPrompt response_text code_preview,
                    confirm_shown := True\<rparr>, None)))"

definition hide_confirm_buttons :: "world \<Rightarrow> world" where
  "hide_confirm_buttons w = w\<lparr>confirm_shown := False, self_pending_code := JNull\<rparr>"

text \<open>
  The body of the \<open>try\<close> in \<open>_on_confirm_execute\<close>: the world after the request (if it
  got that far) and either the exception or the text to show.
\<close>

definition try_execute :: "http \<Rightarrow> world \<Rightarrow> world \<times> (error + shown)" where
  "try_execute reply w =
     (case subscript (self_pending_code w) (u ''language'') of
        Inl e \<Rightarrow> (w, Inl e)
      | Inr language \<Rightarrow>
          (case subscript (self_pending_code w) (u ''code'') of
             Inl e \<Rightarrow> (w, Inl e)
           | Inr code \<Rightarrow>
               (let w1 = post (ExecuteRequest language code) w in
                case reply of
                  Raises \<Rightarrow> (w1, Inl ConnectionError)
                | Response status b \<Rightarrow>
                    if status = 200
                    then (case b of
                            None \<Rightarrow> (w1, Inl ValueError)
                          | Some result \<Rightarrow>
                              (case dict_get result (u ''output'') (JStr msg_no_output) of
                                 Inl e \<Rightarrow> (w1, Inl e)
                               | Inr output \<Rightarrow> (w1, Inr (ExecDone output))))
                    else (w1, Inr (Lit msg_exec_failed)))))"

definition on_confirm_execute :: "http \<Rightarrow> world \<Rightarrow> world" where
  "on_confirm_execute reply w =
     (if \<not> truthy (self_pending_code w) then w
      else
        (case try_execute reply w of
           (w1, r) \<Rightarrow>
             say (JStr say_done)
               (hide_confirm_buttons
                  (w1\<lparr>response_label := (case r of Inl e \<Rightarrow> ExecError e | Inr t \<Rightarrow> t)\<rparr>))))"

definition on_cancel_execute :: "world \<Rightarrow> world" where
  "on_cancel_execute w =
     (hide_confirm_buttons (w\<lparr>self_pending_code := JNull\<rparr>))
       \<lparr>response_label := Lit msg_cancelled\<rparr>"

text \<open>The slot each signal is connected to (lines 348 to 350).\<close>

fun deliver :: "signal \<Rightarrow> world \<Rightarrow> world \<times> error option" where
  "deliver (ResponseReady t) w = (update_response t w, None)"
| "deliver (VoiceTextReady t) w = (on_voice_text t w, None)"
| "deliver (CodeConfirmReady response_text pc) w = show_code_confirm response_text pc w"

subsection \<open>One turn: \<open>_call_llm\<close>\<close>

text \<open>
  What the turn finds around it: the string \<open>get_context()\<close> returns, what the two
  backends answer when asked, and the clock's \<open>strftime\<close> text.
\<close>

record env =
  app_context :: pystr
  chat_reply :: http
  ollama_reply :: http
  now :: pystr

text \<open>The local variables \<open>answer\<close>, \<open>pending_code\<close> and \<open>mode\<close> of \<open>_call_llm\<close>.\<close>

record locals =
  answer :: json
  pending_code :: json
  mode :: json

text \<open>
  The body of the first \<open>try\<close> (lines 504 to 514). The first \<open>get\<close> raises before
  anything is assigned; the two after it are on the same object.
\<close>

definition try_chat :: "http \<Rightarrow> locals \<Rightarrow> error + locals" where
  "try_chat reply v =
     (case reply of
        Raises \<Rightarrow> Inl ConnectionError
      | Response status b \<Rightarrow>
          if status = 200
          then (case b of
                  None \<Rightarrow> Inl ValueError
                | Some result \<Rightarrow>
                    (case dict_get result (u ''response'') (JStr []) of
                       Inl e \<Rightarrow> Inl e
                     | Inr a \<Rightarrow>
                         (case dict_get result (u ''pending_code'') JNull of
                            Inl e \<Rightarrow> Inl e
                          | Inr p \<Rightarrow>
                              (case dict_get result (u ''mode'') (JStr (u ''chat'')) of
                                 Inl e \<Rightarrow> Inl e
                               | Inr m \<Rightarrow>
                                   Inr \<lparr>answer = a, pending_code = p, mode = m\<rparr>))))
          else Inr v)"

text \<open>The body of the second \<open>try\<close> (lines 522 to 537).\<close>

definition try_ollama :: "http \<Rightarrow> locals \<Rightarrow> error + locals" where
  "try_ollama reply v =
     (case reply of
        Raises \<Rightarrow> Inl ConnectionError
      | Response status b \<Rightarrow>
          if status = 200
          then (case b of
                  None \<Rightarrow> Inl ValueError
                | Some result \<Rightarrow>
                    (case dict_get result (u ''message'') (JObj []) of
                       Inl e \<Rightarrow> Inl e
                     | Inr m \<Rightarrow>
                         (case dict_get m (u ''content'') (JStr []) of
                            Inl e \<Rightarrow> Inl e
                          | Inr c \<Rightarrow> Inr (v\<lparr>answer := c\<rparr>))))
          else Inr v)"

text \<open>
  Lines 545 to 554: load the log, append the turn, keep the last 100, save. On something
  that is not a list \<open>history.append\<close> does not exist; the slice of the answer is
  evaluated after that lookup.
\<close>

definition turn :: "pystr \<Rightarrow> pystr \<Rightarrow> json \<Rightarrow> json" where
  "turn time prompt ai = JObj [(u ''time'', JStr time), (u ''user'', JStr prompt), (u ''ai'', ai)]"

definition log_turn :: "pystr \<Rightarrow> pystr \<Rightarrow> json \<Rightarrow> disk \<Rightarrow> error + disk" where
  "log_turn time prompt ans d =
     (case load_history d of
        JArr history \<Rightarrow>
          (case slice_to 200 ans of
             Inl e \<Rightarrow> Inl e
           | Inr ai \<Rightarrow>
               (let history1 = history @ [turn time prompt ai];
                    history2 =
                      (if length history1 > 100
                       then drop (length history1 - 100) history1 else history1)
                in Inr (save_history d (JArr history2))))
      | _ \<Rightarrow> Inl AttributeError)"

text \<open>
  Line 563, the lookup of \<open>mode\<close> in the dict of labels: a list or a dict cannot be
  hashed; any other value that is not one of the three keys gets the empty label.
\<close>

fun mode_label :: "json \<Rightarrow> error + pystr" where
  "mode_label (JStr s) =
     Inr (if s = u ''chat'' then u ''[Chat]''
          else if s = u ''agent'' then u ''[Agent]''
          else if s = u ''fallback'' then u ''[Backup]''
          else [])"
| "mode_label (JArr xs) = Inl TypeError"
| "mode_label (JObj kvs) = Inl TypeError"
| "mode_label _ = Inr []"

text \<open>
  Lines 543 to 568. The result is the world the thread leaves and the exception that ended
  it, if one did. \<open>code_confirm_ready.emit\<close> takes a string and a dict and raises
  \<open>TypeError\<close> on anything else.
\<close>

definition send_result :: "env \<Rightarrow> pystr \<Rightarrow> locals \<Rightarrow> world \<Rightarrow> world \<times> error option" where
  "send_result e prompt v w =
     (if truthy (answer v) then
        (case log_turn (now e) prompt (answer v) (history_file w) of
           Inl err \<Rightarrow> (w, Some err)
         | Inr d \<Rightarrow>
             (let w1 = w\<lparr>history_file := d\<rparr> in
              if truthy (pending_code v) \<and> mode v = JStr (u ''agent'') then
                (case (answer v, pending_code v) of
                   (JStr a, JObj pc) \<Rightarrow>
                     (say (JStr say_confirm) (emit (CodeConfirmReady a pc) w1), None)
                 | _ \<Rightarrow> (w1, Some TypeError))
              else
                (case mode_label (mode v) of
                   Inl err \<Rightarrow> (w1, Some err)
                 | Inr l \<Rightarrow>
                     (say (answer v) (emit (ResponseReady (Reply l (answer v))) w1), None))))
      else (emit (ResponseReady (Lit msg_no_answer)) w, None))"

definition call_llm :: "env \<Rightarrow> pystr \<Rightarrow> world \<Rightarrow> world \<times> error option" where
  "call_llm e prompt w =
     (let v0 = \<lparr>answer = JNull, pending_code = JNull, mode = JStr (u ''chat'')\<rparr>;
          w1 = post (ChatRequest (app_context e) prompt) w;
          v1 = (case try_chat (chat_reply e) v0 of Inl err \<Rightarrow> v0 | Inr v \<Rightarrow> v)
      in if \<not> truthy (answer v1) then
           (let v2 = v1\<lparr>mode := JStr (u ''fallback'')\<rparr>;
                w2 = post (OllamaRequest (app_context e) prompt) w1
            in case try_ollama (ollama_reply e) v2 of
                 Inl err \<Rightarrow> (emit (ResponseReady (Lit msg_unreachable)) w2, None)
               | Inr v3 \<Rightarrow> send_result e prompt v3 w2)
         else send_result e prompt v1 w1)"

text \<open>
  The two cases the dispatch distinguishes in a backend's answer, read off the reply.
  \<open>replied\<close>: the primary backend answers with status 200 and a dict whose
  \<open>response\<close> is truthy. \<open>ollama_attempt\<close>: the fallback call raises (no
  connection, a body that is not JSON, a body or a \<open>message\<close> that is not a dict),
  or it gives no reply (another status, or \<open>content\<close> absent or falsy), or it
  gives a reply.
\<close>

fun replied :: "http \<Rightarrow> bool" where
  "replied (Response status (Some (JObj kvs))) =
     (status = 200 \<and> (case map_of kvs (u ''response'') of Some a \<Rightarrow> truthy a | None \<Rightarrow> False))"
| "replied _ = False"

datatype attempt = Raised | NoReply | Replied json

fun content_of :: "json \<Rightarrow> attempt" where
  "content_of (JObj m) =
     (case map_of m (u ''content'') of
        Some c \<Rightarrow> if truthy c then Replied c else NoReply
      | None \<Rightarrow> NoReply)"
| "content_of _ = Raised"

fun ollama_attempt :: "http \<Rightarrow> attempt" where
  "ollama_attempt Raises = Raised"
| "ollama_attempt (Response status b) =
     (if status \<noteq> 200 then NoReply
      else case b of
             Some (JObj kvs) \<Rightarrow>
               (case map_of kvs (u ''message'') of
                  Some m \<Rightarrow> content_of m
                | None \<Rightarrow> NoReply)
           | _ \<Rightarrow> Raised)"

text \<open>
  Successive turns, each with its time, its prompt and a string answer, logged one after
  the other; the first failure ends the run, as the exception ends its thread.
\<close>

fun log_turns :: "(pystr \<times> pystr \<times> pystr) list \<Rightarrow> disk \<Rightarrow> error + disk" where
  "log_turns [] d = Inr d"
| "log_turns ((time, prompt, a) # ts) d =
     (case log_turn time prompt (JStr a) d of
        Inl e \<Rightarrow> Inl e
      | Inr d' \<Rightarrow> log_turns ts d')"

text \<open>The record such a turn leaves in the log.\<close>

fun entry :: "pystr \<times> pystr \<times> pystr \<Rightarrow> json" where
  "entry (time, prompt, a) = turn time prompt (JStr (take 200 a))"

section \<open>Speech output (voice.py)\<close>

record VoiceModule =
  language :: pystr
  tts_engine :: pystr

text \<open>
  How \<open>asyncio.run(_speak())\<close> goes in \<open>_speak_edge\<close>:
  \<^item> \<open>EdgePlayed\<close>: the coroutine's \<open>try\<close> runs to its end;
  \<^item> \<open>EdgeImportError\<close>: \<open>import edge_tts\<close> or \<open>import pygame\<close> raises
    \<open>ImportError\<close> (handler at line 367);
  \<^item> \<open>EdgeException\<close>: any other \<open>Exception\<close> is raised inside the coroutine's
    \<open>try\<close>, such as a network error in \<open>communicate.save\<close> or a playback error
    (handler at line 371);
  \<^item> \<open>RunRaises\<close>: \<open>asyncio.run\<close> itself raises, or something that is not an
    \<open>Exception\<close> leaves the coroutine (handler at line 376).
\<close>

datatype edge_run = EdgePlayed | EdgeImportError | EdgeException | RunRaises

text \<open>The synthesizer methods \<open>speak\<close> ends up calling, in order.\<close>

datatype tts_call = SpeakEdge pystr pystr | SpeakOffline pystr

definition edge_voice :: "pystr \<Rightarrow> pystr" where
  "edge_voice lang =
     (if lang = u ''zh'' then u ''zh-CN-XiaoxiaoNeural''
      else if lang = u ''en'' then u ''en-US-JennyNeural''
      else if lang = u ''ja'' then u ''ja-JP-NanamiNeural''
      else u ''zh-CN-XiaoxiaoNeural'')"

definition speak_offline :: "pystr \<Rightarrow> tts_call list" where
  "speak_offline txt = [SpeakOffline txt]"

definition speak_edge :: "VoiceModule \<Rightarrow> edge_run \<Rightarrow> pystr \<Rightarrow> tts_call list" where
  "speak_edge vm run txt =
     SpeakEdge (edge_voice (language vm)) txt #
     (case run of
        EdgePlayed \<Rightarrow> []
      | EdgeImportError \<Rightarrow> speak_offline txt
      | EdgeException \<Rightarrow> []
      | RunRaises \<Rightarrow> speak_offline txt)"

definition speak :: "VoiceModule \<Rightarrow> edge_run \<Rightarrow> pystr \<Rightarrow> tts_call list" where
  "speak vm run txt =
     (if txt = [] then []
      else if tts_engine vm = u ''edge'' then speak_edge vm run txt
      else speak_offline txt)"

section \<open>Sample surroundings\<close>

text \<open>
  Concrete inputs for the examples below: both backends unreachable, a history file that
  does not exist yet, one that holds two turns, a bubble that has just been shown an action to confirm, a bubble whose
  microphone button has just been pressed, and a voice module set up as \<open>ChatBubble\<close>
  does it (\<open>language="zh"\<close>, \<open>tts_engine="edge"\<close>).
\<close>

definition both_down :: env where
  "both_down = \<lparr>app_context = [], chat_reply = Raises, ollama_reply = Raises,
                 now = u ''2024-01-01 10:00''\<rparr>"

definition no_file :: disk where
  "no_file = \<lparr>present = False, readable = True, body = None, on_write = Written\<rparr>"

definition two_turns :: disk where
  "two_turns =
     \<lparr>present = True, readable = True,
      body = Some (JArr [turn (u ''2024-01-01 10:00'') (u ''hello'') (JStr (u ''hi'')),
                         turn (u ''2024-01-01 10:01'') (u ''thanks'') (JStr (u ''ok''))]),
      on_write = Written\<rparr>"

definition awaiting :: world where
  "awaiting =
     fst (show_code_confirm (u ''ok'')
            [(u ''language'', JStr (u ''python'')), (u ''code'', JStr (u ''pass''))]
            (new_bubble False no_file))"

definition listening :: world where
  "listening = toggle_voice_input (new_bubble True no_file)"

definition edge_zh :: VoiceModule where
  "edge_zh = \<lparr>language = u ''zh'', tts_engine = u ''edge''\<rparr>"

section \<open>The log file: loading and storing\<close>

lemma load_after_save:
  "on_write d = Written \<Longrightarrow> readable d \<Longrightarrow> encodable x \<Longrightarrow>
   load_history (save_history d x) = x"
  by (simp add: load_history_def save_history_def write_json_def read_json_def)

lemma save_keeps_access:
  "on_write (save_history d x) = on_write d \<and> readable (save_history d x) = readable d"
  by (simp add: save_history_def write_json_def split: write_outcome.splits)

text \<open>A write that fails is passed over: the file is unchanged when it could not be
  opened, and unusable when the write broke off.\<close>

lemma save_open_fails: "on_write d = OpenRaises \<Longrightarrow> save_history d x = d"
  by (simp add: save_history_def write_json_def)

lemma save_dump_fails: "on_write d = DumpRaises \<Longrightarrow> load_history (save_history d x) = JArr []"
  by (simp add: save_history_def write_json_def load_history_def read_json_def)

lemma save_unencodable:
  "on_write d = Written \<Longrightarrow> \<not> encodable x \<Longrightarrow> load_history (save_history d x) = JArr []"
  by (simp add: save_history_def write_json_def load_history_def read_json_def)

lemma encodable_turn:
  "encodable (turn time prompt ai) \<longleftrightarrow>
     list_all utf8_ok time \<and> list_all utf8_ok prompt \<and> encodable ai"
  by (simp add: turn_def u_def utf8_ok_def)

text \<open>
  Claim C6, as the code has it. With a file that can be written and read, storing a turn
  sequence and loading it again gives that sequence back when every string in it can be
  encoded in UTF-8; a sequence with a lone surrogate in one of its strings makes the write
  break off, and what is loaded afterwards is the empty list. The length of the sequence
  plays no part, so the sequences within the cap of 100 are covered with all the others.
\<close>

theorem store_load_roundtrip:
  assumes "on_write d = Written" and "readable d"
  shows "(encodable (JArr turns) \<longrightarrow> load_history (save_history d (JArr turns)) = JArr turns) \<and>
         (\<not> encodable (JArr turns) \<longrightarrow> load_history (save_history d (JArr turns)) = JArr [])"
  using assms by (simp add: load_after_save save_unencodable)

theorem store_load_roundtrip_witness:
  "encodable (JArr [turn (u ''2024-01-01 10:00'') (u ''hello'') (JStr (u ''hi''))]) \<and>
   load_history
     (save_history no_file (JArr [turn (u ''2024-01-01 10:00'') (u ''hello'') (JStr (u ''hi''))]))
   = JArr [turn (u ''2024-01-01 10:00'') (u ''hello'') (JStr (u ''hi''))]"
proof -
  have enc: "encodable (JArr [turn (u ''2024-01-01 10:00'') (u ''hello'') (JStr (u ''hi''))])"
    by (simp add: encodable_turn u_def utf8_ok_def)
  have w: "on_write no_file = Written" and r: "readable no_file"
    by (simp_all add: no_file_def)
  from store_load_roundtrip [OF w r,
      of "[turn (u ''2024-01-01 10:00'') (u ''hello'') (JStr (u ''hi''))]"] enc
  show ?thesis by blast
qed

text \<open>
  The claim as stated fails for a sequence within the cap: one turn whose reply is a lone
  surrogate is stored into a writable, readable file, and what is loaded is the empty list.
\<close>

theorem surrogate_turn_not_read_back:
  "load_history
     (save_history no_file (JArr [turn (u ''2024-01-01 10:00'') (u ''hello'') (JStr [55296])]))
     = JArr [] \<and>
   load_history
     (save_history no_file (JArr [turn (u ''2024-01-01 10:00'') (u ''hello'') (JStr [55296])]))
     \<noteq> JArr [turn (u ''2024-01-01 10:00'') (u ''hello'') (JStr [55296])]"
  by (simp add: save_history_def write_json_def load_history_def read_json_def no_file_def
      encodable_turn utf8_ok_def)

text \<open>
  Claim C7, as the code has it. \<open>load_history\<close> returns the empty list when the file is
  missing, when it cannot be opened for reading, and when its content is not JSON: each
  exception of the \<open>try\<close> body (\<open>read_json\<close> returning \<open>Inl\<close>) is turned into that
  value, so nothing is raised to the caller. Content that is JSON is returned as parsed,
  whatever it is: a list of turns, but a dict, a string or \<open>null\<close> as well.
\<close>

theorem load_history_fails_soft:
  "(\<not> present d \<or> \<not> readable d \<or> body d = None \<longrightarrow>
      load_history d = JArr [] \<and> (present d \<longrightarrow> (\<exists>e. read_json d = Inl e))) \<and>
   (present d \<and> readable d \<and> body d = Some v \<longrightarrow> load_history d = v)"
  by (auto simp: load_history_def read_json_def)

theorem load_history_fails_soft_witness:
  "load_history \<lparr>present = False, readable = True, body = Some (JArr [JNull]), on_write = Written\<rparr>
     = JArr [] \<and>
   load_history \<lparr>present = True, readable = False, body = Some (JArr [JNull]), on_write = Written\<rparr>
     = JArr [] \<and>
   load_history \<lparr>present = True, readable = True, body = None, on_write = Written\<rparr>
     = JArr [] \<and>
   load_history two_turns
     = JArr [turn (u ''2024-01-01 10:00'') (u ''hello'') (JStr (u ''hi'')),
             turn (u ''2024-01-01 10:01'') (u ''thanks'') (JStr (u ''ok''))]"
  using
    load_history_fails_soft
      [of "\<lparr>present = False, readable = True, body = Some (JArr [JNull]), on_write = Written\<rparr>"]
    load_history_fails_soft
      [of "\<lparr>present = True, readable = False, body = Some (JArr [JNull]), on_write = Written\<rparr>"]
    load_history_fails_soft
      [of "\<lparr>present = True, readable = True, body = None, on_write = Written\<rparr>"]
    load_history_fails_soft
      [of two_turns "JArr [turn (u ''2024-01-01 10:00'') (u ''hello'') (JStr (u ''hi'')),
                           turn (u ''2024-01-01 10:01'') (u ''thanks'') (JStr (u ''ok''))]"]
  by (simp add: two_turns_def)

text \<open>
  The claim as stated fails for content that is JSON but not a sequence of turns: a file
  holding \<open>null\<close>, or an empty dict, loads as that value and not as the empty list.
\<close>

theorem load_history_returns_non_list:
  "load_history \<lparr>present = True, readable = True, body = Some JNull, on_write = Written\<rparr>
     = JNull \<and>
   load_history \<lparr>present = True, readable = True, body = Some JNull, on_write = Written\<rparr>
     \<noteq> JArr [] \<and>
   load_history \<lparr>present = True, readable = True, body = Some (JObj []), on_write = Written\<rparr>
     = JObj [] \<and>
   load_history \<lparr>present = True, readable = True, body = Some (JObj []), on_write = Written\<rparr>
     \<noteq> JArr []"
  by (simp add: load_history_def read_json_def)

section \<open>Effects of the basic steps\<close>

lemma post_simps [simp]:
  "requests (post r w) = requests w @ [r]"
  "emitted (post r w) = emitted w"
  "history_file (post r w) = history_file w"
  "spoken (post r w) = spoken w"
  "self_pending_code (post r w) = self_pending_code w"
  "voice_module (post r w) = voice_module w"
  by (simp_all add: post_def)

lemma emit_simps [simp]:
  "requests (emit s w) = requests w"
  "emitted (emit s w) = emitted w @ [s]"
  "history_file (emit s w) = history_file w"
  "spoken (emit s w) = spoken w"
  "self_pending_code (emit s w) = self_pending_code w"
  "voice_module (emit s w) = voice_module w"
  by (simp_all add: emit_def)

lemma say_simps [simp]:
  "requests (say x w) = requests w"
  "emitted (say x w) = emitted w"
  "history_file (say x w) = history_file w"
  "self_pending_code (say x w) = self_pending_code w"
  by (simp_all add: say_def)

lemma hide_confirm_buttons_simps [simp]:
  "requests (hide_confirm_buttons w) = requests w"
  "history_file (hide_confirm_buttons w) = history_file w"
  "self_pending_code (hide_confirm_buttons w) = JNull"
  by (simp_all add: hide_confirm_buttons_def)

lemma try_execute_history: "history_file (fst (try_execute reply w)) = history_file w"
  by (simp add: try_execute_def Let_def split: sum.splits http.splits option.splits)

section \<open>Confirm and cancel\<close>

text \<open>
  Claim C10. Neither \<open>_on_confirm_execute\<close> nor \<open>_on_cancel_execute\<close> touches the
  history file: whatever the execution endpoint answers, and whatever the bubble's state,
  the file after the operation is the file before it. The output, the failure text and the
  cancellation notice go to \<open>response_label\<close> only.
\<close>

theorem confirm_cancel_keep_history:
  "history_file (on_confirm_execute reply w) = history_file w \<and>
   history_file (on_cancel_execute w) = history_file w"
proof
  show "history_file (on_confirm_execute reply w) = history_file w"
    using try_execute_history [of reply w]
    by (cases "try_execute reply w") (simp add: on_confirm_execute_def)
  show "history_file (on_cancel_execute w) = history_file w"
    by (simp add: on_cancel_execute_def)
qed

lemma on_confirm_execute_pending:
  "self_pending_code (on_confirm_execute reply w) =
     (if truthy (self_pending_code w) then JNull else self_pending_code w)"
  by (cases "try_execute reply w") (simp add: on_confirm_execute_def)

lemma awaiting_pending:
  "self_pending_code awaiting =
     JObj [(u ''language'', JStr (u ''python'')), (u ''code'', JStr (u ''pass''))]"
  by (simp add: awaiting_def show_code_confirm_def Let_def u_def)

text \<open>
  Claim C5. \<open>self.pending_code\<close> is either \<open>None\<close> or the non-empty dict a
  \<open>code_confirm_ready\<close> signal delivered. From such a state \<open>_on_confirm_execute\<close>
  leaves it \<open>None\<close> whatever the execution endpoint does (a 200 answer, another status,
  an exception, and an exception before the request as well), and \<open>_on_cancel_execute\<close>
  leaves it \<open>None\<close> without issuing any HTTP request.
\<close>

theorem confirm_cancel_clear_pending:
  assumes "self_pending_code w = JNull \<or> truthy (self_pending_code w)"
  shows "self_pending_code (on_confirm_execute reply w) = JNull \<and>
         self_pending_code (on_cancel_execute w) = JNull \<and>
         requests (on_cancel_execute w) = requests w"
  using assms by (auto simp: on_confirm_execute_pending on_cancel_execute_def)

theorem confirm_cancel_clear_pending_witness:
  "truthy (self_pending_code awaiting) \<and>
   self_pending_code
     (on_confirm_execute (Response 200 (Some (JObj [(u ''output'', JStr (u ''done''))]))) awaiting)
     = JNull \<and>
   self_pending_code (on_confirm_execute (Response 500 None) awaiting) = JNull \<and>
   self_pending_code (on_confirm_execute Raises awaiting) = JNull \<and>
   self_pending_code (on_cancel_execute awaiting) = JNull \<and>
   requests (on_cancel_execute awaiting) = requests awaiting"
proof -
  have t: "truthy (self_pending_code awaiting)" by (simp add: awaiting_pending)
  then have h: "self_pending_code awaiting = JNull \<or> truthy (self_pending_code awaiting)" ..
  show ?thesis
    using t
      confirm_cancel_clear_pending [OF h,
        of "Response 200 (Some (JObj [(u ''output'', JStr (u ''done''))]))"]
      confirm_cancel_clear_pending [OF h, of "Response 500 None"]
      confirm_cancel_clear_pending [OF h, of Raises]
    by simp
qed

section \<open>Blank input\<close>

lemma strip_blank:
  assumes "\<forall>c \<in> set s. py_isspace c"
  shows "strip s = []"
proof -
  from assms have blank: "dropWhile py_isspace s = []" by simp
  show ?thesis unfolding strip_def blank by simp
qed

text \<open>
  Claim C8, as the code has it. Typed input that is empty or all whitespace makes
  \<open>send_message\<close> return with nothing changed: no thread is started, so there is no
  request and no log entry. An empty transcript starts no thread either and leaves the log
  alone, but it does change the bubble beyond the message: the recording flag is reset and
  the microphone button gets its idle style back, next to the "didn't catch that" text. A
  transcript of whitespace only is put in the input field and then dropped by
  \<open>send_message\<close>, with no message shown. In all these cases threads, requests, history
  file and pending action stay as they were.
\<close>

theorem blank_input_no_dispatch:
  "((\<forall>c \<in> set (input_field w). py_isspace c) \<longrightarrow> send_message w = w) \<and>
   on_voice_text [] w =
     w\<lparr>is_recording := False, voice_btn := StyleIdle, response_label := Lit msg_not_heard\<rparr> \<and>
   (txt \<noteq> [] \<and> (\<forall>c \<in> set txt. py_isspace c) \<longrightarrow>
      on_voice_text txt w = w\<lparr>is_recording := False, voice_btn := StyleIdle, input_field := txt\<rparr>) \<and>
   ((\<forall>c \<in> set txt. py_isspace c) \<longrightarrow>
      workers (on_voice_text txt w) = workers w \<and>
      requests (on_voice_text txt w) = requests w \<and>
      history_file (on_voice_text txt w) = history_file w \<and>
      self_pending_code (on_voice_text txt w) = self_pending_code w)"
  by (auto simp: send_message_def on_voice_text_def strip_blank Let_def)

theorem blank_input_no_dispatch_witness:
  "send_message ((new_bubble True no_file)\<lparr>input_field := [32, 9, 12288]\<rparr>)
     = (new_bubble True no_file)\<lparr>input_field := [32, 9, 12288]\<rparr> \<and>
   on_voice_text [32] listening = listening\<lparr>is_recording := False, voice_btn := StyleIdle, input_field := [32]\<rparr> \<and>
   workers (on_voice_text [] listening) = workers listening \<and>
   history_file (on_voice_text [] listening) = history_file listening"
  using blank_input_no_dispatch [of "(new_bubble True no_file)\<lparr>input_field := [32, 9, 12288]\<rparr>" "[]"]
    blank_input_no_dispatch [of listening "[32]"]
    blank_input_no_dispatch [of listening "[]"]
  by (simp add: py_isspace_def)

text \<open>
  The claim as stated, that an empty transcript changes nothing but the message, fails in
  the state in which a transcript arrives: the microphone button was pressed, so the
  bubble is recording, and \<open>_on_voice_text\<close> ends that.
\<close>

theorem empty_transcript_resets_recording:
  "is_recording listening \<and>
   on_voice_text [] listening \<noteq> listening\<lparr>response_label := Lit msg_not_heard\<rparr> \<and>
   \<not> is_recording (on_voice_text [] listening)"
proof -
  have r: "is_recording listening"
    by (simp add: listening_def toggle_voice_input_def new_bubble_def)
  have n: "\<not> is_recording (on_voice_text [] listening)"
    by (simp add: on_voice_text_def)
  have "is_recording (listening\<lparr>response_label := Lit msg_not_heard\<rparr>)"
    using r by simp
  with n have "on_voice_text [] listening \<noteq> listening\<lparr>response_label := Lit msg_not_heard\<rparr>"
    by metis
  with r n show ?thesis by simp
qed

section \<open>The append to the log\<close>

lemma last100_step:
  "drop (length (drop (length xs - 100) xs @ [y]) - 100) (drop (length xs - 100) xs @ [y])
   = drop (length (xs @ [y]) - 100) (xs @ [y])"
proof (cases "length xs \<le> 100")
  case True
  then show ?thesis by simp
next
  case False
  then have "Suc (length xs - 100) = length xs - 99" by arith
  with False show ?thesis by simp
qed

lemma list_all_drop: "list_all P xs \<Longrightarrow> list_all P (drop n xs)"
  using set_drop_subset [of n xs] by (auto simp: list_all_iff)

lemma log_turn_string:
  assumes "load_history d = JArr h"
  shows "log_turn t p (JStr a) d =
         Inr (save_history d
                (JArr (drop (length (h @ [entry (t, p, a)]) - 100) (h @ [entry (t, p, a)]))))"
  using assms by (simp add: log_turn_def Let_def)

lemma log_turns_snoc:
  "log_turns (ts @ [x]) d =
     (case log_turns ts d of
        Inl e \<Rightarrow> Inl e
      | Inr d' \<Rightarrow> log_turn (fst x) (fst (snd x)) (JStr (snd (snd x))) d')"
proof (induction ts arbitrary: d)
  case Nil
  show ?case by (cases x) (simp split: sum.splits)
next
  case (Cons y ts)
  show ?case by (cases y) (simp add: Cons.IH split: sum.splits)
qed

lemma log_turns_run:
  assumes "on_write d = Written" "readable d" "load_history d = JArr h"
      and "list_all encodable h"
  shows "list_all (\<lambda>x. encodable (entry x)) ts \<Longrightarrow>
         \<exists>d'. log_turns ts d = Inr d' \<and> on_write d' = Written \<and> readable d' \<and>
          load_history d' =
            JArr (if ts = [] then h
                  else drop (length (h @ map entry ts) - 100) (h @ map entry ts))"
proof (induction ts rule: rev_induct)
  case Nil
  show ?case using assms by simp
next
  case (snoc x ts)
  let ?h' = "if ts = [] then h else drop (length (h @ map entry ts) - 100) (h @ map entry ts)"
  let ?new = "drop (length (?h' @ [entry x]) - 100) (?h' @ [entry x])"
  from snoc.prems have encs: "list_all (\<lambda>x. encodable (entry x)) ts" and encx: "encodable (entry x)"
    by simp_all
  from snoc.IH [OF encs] obtain d' where d': "log_turns ts d = Inr d'" "on_write d' = Written"
    "readable d'" "load_history d' = JArr ?h'"
    by blast
  obtain t p a where x: "x = (t, p, a)" by (cases x)
  have step: "log_turn t p (JStr a) d' = Inr (save_history d' (JArr ?new))"
    using log_turn_string [OF d'(4), of t p a] x by simp
  have "list_all encodable (h @ map entry ts)"
    using assms(4) encs by (auto simp: list_all_iff)
  then have "list_all encodable ?h'"
    using assms(4) by (simp add: list_all_drop)
  with encx have "list_all encodable (?h' @ [entry x])" by simp
  then have enc: "encodable (JArr ?new)"
    using list_all_drop [of encodable "?h' @ [entry x]"] by simp
  have eq: "?new = drop (length (h @ map entry (ts @ [x])) - 100) (h @ map entry (ts @ [x]))"
    using last100_step [of "h @ map entry ts" "entry x"] by (cases "ts = []") simp_all
  show ?case
    using d' step eq x load_after_save [OF d'(2) d'(3) enc] save_keeps_access [of d']
    by (simp add: log_turns_snoc)
qed

text \<open>
  Claim C2, as the code has it. Take a history file that can be read and written and that
  holds a list whose strings can all be encoded in UTF-8 (or nothing usable, which loads as
  the empty list). After more than 100 turns whose strings can be encoded have been appended
  one after the other, the file holds exactly the last 100 of them, oldest first; and an
  append of such a turn to a log of fewer than 100 entries gives the old log with the new
  turn at its end, one entry longer.
\<close>

theorem log_keeps_last_100:
  assumes "on_write d = Written" and "readable d" and "load_history d = JArr h"
      and "encodable (JArr h)"
  shows "(100 < length ts \<and> list_all (\<lambda>x. encodable (entry x)) ts \<longrightarrow>
            (\<exists>d' log. log_turns ts d = Inr d' \<and> load_history d' = JArr log \<and>
                length log = 100 \<and> log = drop (length ts - 100) (map entry ts))) \<and>
         (length h < 100 \<and> encodable (entry (t, p, a)) \<longrightarrow>
            (\<exists>d'. log_turn t p (JStr a) d = Inr d' \<and>
                load_history d' = JArr (h @ [entry (t, p, a)]) \<and>
                length (h @ [entry (t, p, a)]) = length h + 1))"
proof (intro conjI impI)
  assume "100 < length ts \<and> list_all (\<lambda>x. encodable (entry x)) ts"
  then have long: "100 < length ts" and encs: "list_all (\<lambda>x. encodable (entry x)) ts"
    by simp_all
  from long have ne: "ts \<noteq> []" by auto
  from assms(4) have ench: "list_all encodable h" by simp
  from log_turns_run [OF assms(1-3) ench encs] obtain d' where
    run: "log_turns ts d = Inr d'" and
    "load_history d' =
       JArr (if ts = [] then h
             else drop (length (h @ map entry ts) - 100) (h @ map entry ts))"
    by blast
  with ne have d': "log_turns ts d = Inr d'"
    "load_history d' = JArr (drop (length (h @ map entry ts) - 100) (h @ map entry ts))"
    by simp_all
  have "drop (length (h @ map entry ts) - 100) (h @ map entry ts)
        = drop (length ts - 100) (map entry ts)"
    using long by simp
  with d' long show "\<exists>d' log. log_turns ts d = Inr d' \<and> load_history d' = JArr log \<and>
      length log = 100 \<and> log = drop (length ts - 100) (map entry ts)"
    by simp
next
  assume "length h < 100 \<and> encodable (entry (t, p, a))"
  then have short: "length h < 100" and encx: "encodable (entry (t, p, a))"
    by simp_all
  have step: "log_turn t p (JStr a) d = Inr (save_history d (JArr (h @ [entry (t, p, a)])))"
    using log_turn_string [OF assms(3), of t p a] short by simp
  have enc: "encodable (JArr (h @ [entry (t, p, a)]))"
    using assms(4) encx by simp
  show "\<exists>d'. log_turn t p (JStr a) d = Inr d' \<and>
      load_history d' = JArr (h @ [entry (t, p, a)]) \<and>
      length (h @ [entry (t, p, a)]) = length h + 1"
    using step load_after_save [OF assms(1) assms(2) enc] by simp
qed

theorem log_keeps_last_100_witness:
  "(\<exists>d' log.
      log_turns (map (\<lambda>i. (u ''2024-01-01 10:00'', [i], u ''ok'')) [0..<101]) no_file = Inr d' \<and>
      load_history d' = JArr log \<and> length log = 100 \<and>
      log = map (\<lambda>i. entry (u ''2024-01-01 10:00'', [i], u ''ok'')) [1..<101]) \<and>
   (\<exists>d'. log_turn (u ''2024-01-01 10:00'') (u ''hello'') (JStr (u ''hi'')) no_file = Inr d' \<and>
          load_history d' = JArr [entry (u ''2024-01-01 10:00'', u ''hello'', u ''hi'')])"
proof -
  have w: "on_write no_file = Written" and r: "readable no_file"
    and l: "load_history no_file = JArr []"
    by (simp_all add: no_file_def load_history_def)
  have e0: "encodable (JArr [])" by simp
  have d: "drop (Suc 0) [0..<101] = [1..<101]" by (simp add: drop_upt)
  have u: "list_all utf8_ok (u ''2024-01-01 10:00'')" "list_all utf8_ok (u ''ok'')"
    "list_all utf8_ok (u ''hello'')" "list_all utf8_ok (u ''hi'')"
    by (simp_all add: u_def utf8_ok_def)
  have t: "take 200 (u ''ok'') = u ''ok''" "take 200 (u ''hi'') = u ''hi''"
    by (simp_all add: u_def)
  have "\<forall>i \<in> set [0..<101]. encodable (entry (u ''2024-01-01 10:00'', [i], u ''ok''))"
    using u t by (simp add: encodable_turn utf8_ok_def del: upt_Suc)
  then have encs: "list_all (\<lambda>x. encodable (entry x))
                (map (\<lambda>i. (u ''2024-01-01 10:00'', [i], u ''ok'')) [0..<101])"
    unfolding list_all_iff by (simp del: entry.simps upt_Suc)
  have encx: "encodable (entry (u ''2024-01-01 10:00'', u ''hello'', u ''hi''))"
    using u t by (simp add: encodable_turn)
  show ?thesis
    using log_keeps_last_100 [OF w r l e0,
        of "map (\<lambda>i. (u ''2024-01-01 10:00'', [i], u ''ok'')) [0..<101]"
        "u ''2024-01-01 10:00''" "u ''hello''" "u ''hi''"] d encs encx
    by (simp add: drop_map comp_def del: entry.simps upt_Suc)
qed

text \<open>
  The claim as stated fails for an append below the cap: a turn whose reply is a lone
  surrogate is appended to a writable, readable log of two turns; the write breaks off
  after the file has been emptied, and the log read back is empty instead of three turns
  long.
\<close>

theorem surrogate_append_loses_log:
  "log_turn (u ''2024-01-01 10:02'') (u ''bye'') (JStr [55296]) two_turns
     = Inr (two_turns\<lparr>body := None\<rparr>) \<and>
   load_history (two_turns\<lparr>body := None\<rparr>) = JArr [] \<and>
   load_history two_turns
     = JArr [turn (u ''2024-01-01 10:00'') (u ''hello'') (JStr (u ''hi'')),
             turn (u ''2024-01-01 10:01'') (u ''thanks'') (JStr (u ''ok''))] \<and>
   load_history (two_turns\<lparr>body := None\<rparr>)
     \<noteq> JArr [turn (u ''2024-01-01 10:00'') (u ''hello'') (JStr (u ''hi'')),
              turn (u ''2024-01-01 10:01'') (u ''thanks'') (JStr (u ''ok'')),
              entry (u ''2024-01-01 10:02'', u ''bye'', [55296])]"
  by (simp add: log_turn_def load_history_def read_json_def two_turns_def save_history_def
      write_json_def encodable_turn utf8_ok_def Let_def)

section \<open>Dispatch: primary backend, fallback, result\<close>

lemma send_result_requests: "requests (fst (send_result e p v w)) = requests w"
  by (simp add: send_result_def Let_def split: sum.splits json.splits prod.splits)

lemma try_chat_answer:
  "truthy (answer (case try_chat r \<lparr>answer = JNull, pending_code = JNull, mode = m0\<rparr> of
                      Inl err \<Rightarrow> \<lparr>answer = JNull, pending_code = JNull, mode = m0\<rparr>
                    | Inr v \<Rightarrow> v))
   \<longleftrightarrow> replied r"
proof (cases r)
  case Raises
  then show ?thesis by (simp add: try_chat_def)
next
  case (Response status b)
  show ?thesis
  proof (cases b)
    case None
    with Response show ?thesis by (simp add: try_chat_def)
  next
    case (Some result)
    with Response show ?thesis
      by (cases result) (simp_all add: try_chat_def split: option.splits)
  qed
qed

lemma try_ollama_attempt:
  assumes "\<not> truthy (answer v)"
  shows "case ollama_attempt r of
           Raised \<Rightarrow> (\<exists>err. try_ollama r v = Inl err)
         | NoReply \<Rightarrow> (\<exists>v'. try_ollama r v = Inr v' \<and> \<not> truthy (answer v'))
         | Replied c \<Rightarrow> try_ollama r v = Inr (v\<lparr>answer := c\<rparr>) \<and> truthy c"
proof (cases r)
  case Raises
  then show ?thesis by (simp add: try_ollama_def)
next
  case (Response status b)
  show ?thesis
  proof (cases "status = 200")
    case False
    with Response assms show ?thesis by (simp add: try_ollama_def)
  next
    case True
    show ?thesis
    proof (cases b)
      case None
      with Response True show ?thesis by (simp add: try_ollama_def)
    next
      case (Some result)
      show ?thesis
      proof (cases result)
        case (JObj kvs)
        show ?thesis
        proof (cases "map_of kvs (u ''message'')")
          case None
          with Response True Some JObj show ?thesis by (simp add: try_ollama_def)
        next
          case (Some m)
          with Response True \<open>b = Some result\<close> JObj show ?thesis
            by (cases m) (simp_all add: try_ollama_def split: option.splits)
        qed
      qed (use Response True Some in \<open>simp_all add: try_ollama_def\<close>)
    qed
  qed
qed

lemma send_result_no_answer:
  "\<not> truthy (answer v) \<Longrightarrow>
   send_result e p v w = (emit (ResponseReady (Lit msg_no_answer)) w, None)"
  by (simp add: send_result_def)

text \<open>
  Claim C1, as the code has it. When the primary backend gives no reply and the fallback
  gives none either, the turn ends normally and exactly one text is sent to the screen:
  the connectivity message when the fallback call raised, the "don't know what to say"
  message when it returned without a reply. In both cases the history file is left as it
  was (the turn is not appended) and nothing is spoken.
\<close>

theorem no_reply_not_logged:
  assumes "\<not> replied (chat_reply e)"
      and "\<forall>c. ollama_attempt (ollama_reply e) \<noteq> Replied c"
  shows "snd (call_llm e prompt w) = None \<and>
         emitted (fst (call_llm e prompt w)) =
           emitted w @ [ResponseReady (Lit (if ollama_attempt (ollama_reply e) = Raised
                                            then msg_unreachable else msg_no_answer))] \<and>
         history_file (fst (call_llm e prompt w)) = history_file w \<and>
         spoken (fst (call_llm e prompt w)) = spoken w"
proof -
  let ?v0 = "\<lparr>answer = JNull, pending_code = JNull, mode = JStr (u ''chat'')\<rparr>"
  let ?v1 = "case try_chat (chat_reply e) ?v0 of Inl err \<Rightarrow> ?v0 | Inr v \<Rightarrow> v"
  let ?v2 = "?v1\<lparr>mode := JStr (u ''fallback'')\<rparr>"
  have falsy1: "\<not> truthy (answer ?v1)"
    using assms(1) try_chat_answer [where r = "chat_reply e" and ?m0.0 = "JStr (u ''chat'')"]
    by simp
  then have falsy2: "\<not> truthy (answer ?v2)" by simp
  show ?thesis
  proof (cases "ollama_attempt (ollama_reply e)")
    case Raised
    with try_ollama_attempt [OF falsy2, of "ollama_reply e"]
    obtain err where "try_ollama (ollama_reply e) ?v2 = Inl err" by auto
    with falsy1 Raised show ?thesis by (simp add: call_llm_def Let_def)
  next
    case NoReply
    with try_ollama_attempt [OF falsy2, of "ollama_reply e"]
    obtain v' where "try_ollama (ollama_reply e) ?v2 = Inr v'" "\<not> truthy (answer v')" by auto
    with falsy1 NoReply show ?thesis
      by (simp add: call_llm_def Let_def send_result_no_answer)
  next
    case (Replied c)
    with assms(2) show ?thesis by simp
  qed
qed

theorem no_reply_not_logged_witness:
  "emitted (fst (call_llm both_down (u ''hello'') (new_bubble False no_file)))
     = [ResponseReady (Lit msg_unreachable)] \<and>
   history_file (fst (call_llm both_down (u ''hello'') (new_bubble False no_file))) = no_file \<and>
   emitted (fst (call_llm (both_down\<lparr>ollama_reply := Response 500 None\<rparr>) (u ''hello'')
                   (new_bubble False no_file)))
     = [ResponseReady (Lit msg_no_answer)]"
  using no_reply_not_logged [of both_down "u ''hello''" "new_bubble False no_file"]
    no_reply_not_logged [of "both_down\<lparr>ollama_reply := Response 500 None\<rparr>" "u ''hello''"
      "new_bubble False no_file"]
  by (simp add: both_down_def new_bubble_def)

text \<open>
  The claim as stated fails with both backends unreachable and no history file: the
  connectivity message is shown, but the log read back afterwards is empty and so is not
  the log with that turn in it.
\<close>

theorem both_fail_turn_not_appended:
  "emitted (fst (call_llm both_down (u ''hello'') (new_bubble False no_file)))
     = [ResponseReady (Lit msg_unreachable)] \<and>
   load_history (history_file (fst (call_llm both_down (u ''hello'') (new_bubble False no_file))))
     = JArr [] \<and>
   load_history (history_file (fst (call_llm both_down (u ''hello'') (new_bubble False no_file))))
     \<noteq> JArr [turn (u ''2024-01-01 10:00'') (u ''hello'') (JStr msg_unreachable)]"
  by (simp add: call_llm_def both_down_def new_bubble_def no_file_def try_chat_def
      try_ollama_def Let_def post_def emit_def load_history_def)

text \<open>
  Claim C3. Every run of \<open>_call_llm\<close> issues the request to the primary backend, and
  after it the request to the fallback backend exactly when the primary gave no non-empty
  reply: none when it replied, one (and only one) when it raised, answered with another
  status, or answered with an empty reply.
\<close>

theorem fallback_exactly_when_no_reply:
  "requests (fst (call_llm e prompt w)) =
     requests w @ ChatRequest (app_context e) prompt #
       (if replied (chat_reply e) then [] else [OllamaRequest (app_context e) prompt])"
  using try_chat_answer [where r = "chat_reply e" and ?m0.0 = "JStr (u ''chat'')"]
  by (simp add: call_llm_def Let_def send_result_requests split: sum.splits)

theorem fallback_exactly_when_no_reply_witness:
  "requests (fst (call_llm both_down (u ''hello'') (new_bubble False no_file)))
     = [ChatRequest [] (u ''hello''), OllamaRequest [] (u ''hello'')] \<and>
   requests (fst (call_llm
       (both_down\<lparr>chat_reply :=
          Response 200 (Some (JObj [(u ''response'', JStr (u ''hi'')), (u ''mode'', JStr (u ''chat''))]))\<rparr>)
       (u ''hello'') (new_bubble False no_file)))
     = [ChatRequest [] (u ''hello'')]"
  using fallback_exactly_when_no_reply [of both_down "u ''hello''" "new_bubble False no_file"]
    fallback_exactly_when_no_reply
      [of "both_down\<lparr>chat_reply :=
             Response 200 (Some (JObj [(u ''response'', JStr (u ''hi'')), (u ''mode'', JStr (u ''chat''))]))\<rparr>"
          "u ''hello''" "new_bubble False no_file"]
  by (simp add: both_down_def new_bubble_def u_def)

text \<open>
  Claim C4. For a dispatch result with a non-empty string reply, a payload that is absent
  or a dict, and a string mode, the turn completes, and the payload goes to the
  confirmation state (the \<open>code_confirm_ready\<close> signal, whose slot stores it in
  \<open>self.pending_code\<close>) exactly when the mode is \<open>agent\<close> and the payload is
  non-empty. In every other case, a payload beside a \<open>chat\<close> or \<open>fallback\<close> mode
  included, the reply is sent as plain text under its mode label, and the pending action and
  the confirm buttons are left as they were.
\<close>

theorem confirmation_iff_agent_with_payload:
  assumes "answer v = JStr a" and "a \<noteq> []"
      and "pending_code v = JNull \<or> (\<exists>pc. pending_code v = JObj pc)"
      and "mode v = JStr m"
      and "load_history (history_file w) = JArr h"
  shows "\<exists>w'. send_result e prompt v w = (w', None) \<and>
           (if mode v = JStr (u ''agent'') \<and> truthy (pending_code v)
            then \<exists>pc. pending_code v = JObj pc \<and>
                   emitted w' = emitted w @ [CodeConfirmReady a pc] \<and>
                   self_pending_code (fst (deliver (CodeConfirmReady a pc) w')) = JObj pc
            else \<exists>l. mode_label (mode v) = Inr l \<and>
                   emitted w' = emitted w @ [ResponseReady (Reply l (JStr a))] \<and>
                   deliver (ResponseReady (Reply l (JStr a))) w' =
                     (w'\<lparr>response_label := Reply l (JStr a)\<rparr>, None) \<and>
                   self_pending_code w' = self_pending_code w \<and>
                   confirm_shown w' = confirm_shown w)"
proof -
  obtain d where log: "log_turn (now e) prompt (JStr a) (history_file w) = Inr d"
    using log_turn_string [OF assms(5)] by simp
  show ?thesis
  proof (cases "mode v = JStr (u ''agent'') \<and> truthy (pending_code v)")
    case True
    with assms(3) obtain pc where pc: "pending_code v = JObj pc" by auto
    with True assms(1,2) log show ?thesis
      by (simp add: send_result_def Let_def show_code_confirm_def say_def emit_def
          split: sum.splits)
  next
    case False
    obtain l where l: "mode_label (JStr m) = Inr l" by simp
    have "send_result e prompt v w =
            (say (JStr a) (emit (ResponseReady (Reply l (JStr a))) (w\<lparr>history_file := d\<rparr>)),
             None)"
      using False assms(1,2,4) log l by (auto simp: send_result_def Let_def)
    with False l assms(4) show ?thesis
      by (simp add: update_response_def say_def emit_def del: mode_label.simps)
  qed
qed

theorem confirmation_iff_agent_with_payload_witness:
  "(\<exists>w'. send_result both_down (u ''open browser'')
            \<lparr>answer = JStr (u ''ok''),
             pending_code = JObj [(u ''language'', JStr (u ''python'')), (u ''code'', JStr (u ''pass''))],
             mode = JStr (u ''agent'')\<rparr>
            (new_bubble False no_file) = (w', None) \<and>
          emitted w' =
            [CodeConfirmReady (u ''ok'')
               [(u ''language'', JStr (u ''python'')), (u ''code'', JStr (u ''pass''))]]) \<and>
   (\<exists>w'. send_result both_down (u ''open browser'')
            \<lparr>answer = JStr (u ''ok''),
             pending_code = JObj [(u ''language'', JStr (u ''python'')), (u ''code'', JStr (u ''pass''))],
             mode = JStr (u ''fallback'')\<rparr>
            (new_bubble False no_file) = (w', None) \<and>
          emitted w' = [ResponseReady (Reply (u ''[Backup]'') (JStr (u ''ok'')))] \<and>
          self_pending_code w' = JNull)"
proof -
  have log: "load_history (history_file (new_bubble False no_file)) = JArr []"
    by (simp add: new_bubble_def no_file_def load_history_def)
  have a: "u ''ok'' \<noteq> []" by (simp add: u_def)
  have ne: "u ''fallback'' \<noteq> u ''agent''" "u ''fallback'' \<noteq> u ''chat''"
    by (simp_all add: u_def)
  let ?pc = "[(u ''language'', JStr (u ''python'')), (u ''code'', JStr (u ''pass''))]"
  have 1: "\<exists>w'. send_result both_down (u ''open browser'')
            \<lparr>answer = JStr (u ''ok''), pending_code = JObj ?pc, mode = JStr (u ''agent'')\<rparr>
            (new_bubble False no_file) = (w', None) \<and>
          emitted w' = [CodeConfirmReady (u ''ok'') ?pc]"
    using confirmation_iff_agent_with_payload
      [of "\<lparr>answer = JStr (u ''ok''), pending_code = JObj ?pc, mode = JStr (u ''agent'')\<rparr>"
          "u ''ok''" "u ''agent''" "new_bubble False no_file" "[]" both_down "u ''open browser''",
       OF _ a _ _ log]
    by (auto simp: new_bubble_def)
  have 2: "\<exists>w'. send_result both_down (u ''open browser'')
            \<lparr>answer = JStr (u ''ok''), pending_code = JObj ?pc, mode = JStr (u ''fallback'')\<rparr>
            (new_bubble False no_file) = (w', None) \<and>
          emitted w' = [ResponseReady (Reply (u ''[Backup]'') (JStr (u ''ok'')))] \<and>
          self_pending_code w' = JNull"
    using confirmation_iff_agent_with_payload
      [of "\<lparr>answer = JStr (u ''ok''), pending_code = JObj ?pc, mode = JStr (u ''fallback'')\<rparr>"
          "u ''ok''" "u ''fallback''" "new_bubble False no_file" "[]" both_down "u ''open browser''",
       OF _ a _ _ log] ne
    by (auto simp: new_bubble_def)
  from 1 2 show ?thesis by simp
qed

section \<open>Speech output\<close>

text \<open>With the edge backend, \<open>_speak_offline\<close> is reached on an \<open>ImportError\<close>
  and when \<open>asyncio.run\<close> raises, and in no other case.\<close>

lemma speak_edge_offline_iff:
  "SpeakOffline txt \<in> set (speak_edge vm run txt) \<longleftrightarrow> run = EdgeImportError \<or> run = RunRaises"
  by (cases run) (simp_all add: speak_edge_def speak_offline_def)

text \<open>
  Claim C9 does not hold of the code. With the edge backend selected and a non-empty text,
  an \<open>ImportError\<close> inside the coroutine leads to \<open>_speak_offline\<close>, but any other
  exception raised there (a network error while fetching the audio, a playback error) is
  caught by the coroutine's own handler, which only prints it: the offline synthesizer is
  not called and nothing is spoken.
\<close>

theorem edge_runtime_error_no_fallback:
  "speak edge_zh EdgeException (u ''hi'') = [SpeakEdge (u ''zh-CN-XiaoxiaoNeural'') (u ''hi'')] \<and>
   SpeakOffline (u ''hi'') \<notin> set (speak edge_zh EdgeException (u ''hi'')) \<and>
   speak edge_zh EdgeImportError (u ''hi'')
     = [SpeakEdge (u ''zh-CN-XiaoxiaoNeural'') (u ''hi''), SpeakOffline (u ''hi'')]"
  by (simp add: speak_def speak_edge_def speak_offline_def edge_voice_def edge_zh_def u_def)

end
